theory Spec2Isabelle
  imports Main
begin

section \<open>JavaScript values and the object heap\<close>

text \<open>
  The module \<^verbatim>\<open>index.js\<close> defines the class \<^verbatim>\<open>COSRedirector\<close> with two methods,
  \<^verbatim>\<open>execCommandAndSendToCOS\<close> and \<^verbatim>\<open>uploadStreamToCOS\<close>. Both work on JavaScript
  objects that they share with their caller (the option objects are passed by reference
  and written to), so objects live in an explicit heap and values refer to them by
  address. Numbers are the integers the code uses (sizes and counts).
\<close>

type_synonym addr = nat

datatype jsval = Undefined | Null | BoolV bool | NumV int | StrV string | Ref addr

text \<open>
  The kinds of object the code meets: plain option objects, readable streams (a child's
  standard output, or any stream of the caller), gzip transforms made by
  \<^verbatim>\<open>createGzip\<close>, and child-process handles made by \<^verbatim>\<open>spawn\<close>. An object has its
  properties and, when it is a stream, the state Node keeps for it: the listeners of its
  consumer and its flowing mode, here the one flag \<open>attached\<close>, set once a consumer has been
  attached to the stream and reads from it.
\<close>

datatype kind = Plain | Readable | Gzip | ChildProcess

record obj =
  kind :: kind
  props :: "string \<rightharpoonup> jsval"
  attached :: bool

text \<open>The two listeners the code registers on a child process.\<close>

datatype listener = OnExit | OnError

text \<open>
  The completion callback \<^verbatim>\<open>function(err, data) { ... }\<close> that \<^verbatim>\<open>uploadStreamToCOS\<close> hands to
  the storage client. It closes over the instance only.
\<close>

datatype callback = OnUploadDone

text \<open>
  What the instance does to the world outside it, in the order it happens: processes
  spawned, gzip transforms created, pipes set up, calls of the storage client's
  \<^verbatim>\<open>upload\<close> with their three arguments, and signals emitted on the \<^verbatim>\<open>COSRedirector\<close>
  instance itself.
\<close>

datatype effect =
    Spawned string "string list" addr
  | GzipCreated addr
  | Piped addr addr
  | S3Upload jsval jsval callback
  | Emitted string jsval

record state =
  heap :: "addr \<Rightarrow> obj"
  nxt :: addr
  listeners :: "(addr \<times> string \<times> listener) list"
  trace :: "effect list"

datatype error = TypeError

text \<open>Truthiness of a value, as the conditional operator \<^verbatim>\<open>c ? a : b\<close> tests it.\<close>

fun truthy :: "jsval \<Rightarrow> bool" where
  "truthy Undefined = False"
| "truthy Null = False"
| "truthy (BoolV b) = b"
| "truthy (NumV n) = (n \<noteq> 0)"
| "truthy (StrV s) = (s \<noteq> [])"
| "truthy (Ref a) = True"

text \<open>A default parameter \<^verbatim>\<open>p=d\<close>: the default stands in for an omitted or undefined argument.\<close>

fun default_param :: "jsval \<Rightarrow> jsval \<Rightarrow> jsval" where
  "default_param Undefined d = d"
| "default_param v d = v"

text \<open>A new object is placed at the next free address.\<close>

definition alloc :: "kind \<Rightarrow> (string \<rightharpoonup> jsval) \<Rightarrow> state \<Rightarrow> addr \<times> state" where
  "alloc k ps \<sigma> =
     (nxt \<sigma>, \<sigma>\<lparr>heap := (heap \<sigma>)(nxt \<sigma> := \<lparr>kind = k, props = ps, attached = False\<rparr>),
          nxt := Suc (nxt \<sigma>)\<rparr>)"

text \<open>Reading a property \<^verbatim>\<open>v.name\<close> of an object; an absent property reads as undefined.\<close>

definition get_prop :: "state \<Rightarrow> jsval \<Rightarrow> string \<Rightarrow> jsval" where
  "get_prop \<sigma> v name =
     (case v of
        Ref a \<Rightarrow> (case props (heap \<sigma> a) name of Some x \<Rightarrow> x | None \<Rightarrow> Undefined)
      | _ \<Rightarrow> Undefined)"

section \<open>The collaborators\<close>

subsection \<open>The \<^verbatim>\<open>extend\<close> package\<close>

text \<open>
  \<^verbatim>\<open>index.js\<close> merges its option objects with \<^verbatim>\<open>extend(false, target, object1)\<close> from the
  npm package \<^verbatim>\<open>extend\<close>, a port of jQuery's \<^verbatim>\<open>extend\<close>; the package is a dependency and
  not part of the repository's sources. Its contract: with a leading boolean the copy
  is deep or (for \<^verbatim>\<open>false\<close>) shallow; the target is \<^verbatim>\<open>arguments[1] || {}\<close>, replaced by a
  new empty object when it is not an object; every enumerable property of \<^verbatim>\<open>object1\<close> is
  then written onto the target, in order, except a value that is the target itself and a
  value that is undefined; the target, modified in place, is returned.
  \<^verbatim>\<open>
    for (name in options) {
        copy = options[name];
        if (target !== copy) {
            if (deep && ...) { ... }
            else if (typeof copy !== 'undefined') { target[name] = copy; }
        }
    }
    return target;
  \<close>
  The second object of each call in \<^verbatim>\<open>index.js\<close> is an object literal, given here as the
  list of its properties.
\<close>

fun copy_props :: "addr \<Rightarrow> (string \<times> jsval) list \<Rightarrow> (string \<rightharpoonup> jsval) \<Rightarrow> (string \<rightharpoonup> jsval)" where
  "copy_props target [] ps = ps"
| "copy_props target ((name, copy) # rest) ps =
     copy_props target rest
       (if Ref target \<noteq> copy \<and> copy \<noteq> Undefined then ps(name \<mapsto> copy) else ps)"

definition extend :: "jsval \<Rightarrow> (string \<times> jsval) list \<Rightarrow> state \<Rightarrow> jsval \<times> state" where
  "extend target options \<sigma> =
     (let (t, \<sigma>1) = (case target of Ref a \<Rightarrow> (a, \<sigma>) | _ \<Rightarrow> alloc Plain Map.empty \<sigma>);
          ob = heap \<sigma>1 t
      in (Ref t,
          \<sigma>1\<lparr>heap := (heap \<sigma>1)(t := ob\<lparr>props := copy_props t options (props ob)\<rparr>)\<rparr>))"

subsection \<open>Streams, processes, the storage client and the event emitter\<close>

text \<open>\<^verbatim>\<open>createGzip()\<close> of \<^verbatim>\<open>zlib\<close>: a new gzip transform.\<close>

definition createGzip :: "state \<Rightarrow> jsval \<times> state" where
  "createGzip \<sigma> =
     (let (g, \<sigma>1) = alloc Gzip Map.empty \<sigma>
      in (Ref g, \<sigma>1\<lparr>trace := trace \<sigma>1 @ [GzipCreated g]\<rparr>))"

text \<open>
  A consumer is attached to a value: on a stream it registers its listeners and the stream
  starts to flow; on anything else there is nothing to attach to.
\<close>

definition attach :: "jsval \<Rightarrow> state \<Rightarrow> state" where
  "attach v \<sigma> =
     (case v of
        Ref s \<Rightarrow>
          (if kind (heap \<sigma> s) = Readable \<or> kind (heap \<sigma> s) = Gzip
           then \<sigma>\<lparr>heap := (heap \<sigma>)(s := (heap \<sigma> s)\<lparr>attached := True\<rparr>)\<rparr>
           else \<sigma>)
      | _ \<Rightarrow> \<sigma>)"

text \<open>
  \<^verbatim>\<open>stream.pipe(dest)\<close>: the destination is attached to a readable stream (a gzip transform
  is one too) as its consumer, and the call returns the destination. On anything else
  there is no method \<^verbatim>\<open>pipe\<close> to call and the call throws a \<^verbatim>\<open>TypeError\<close>.
\<close>

definition pipe :: "jsval \<Rightarrow> jsval \<Rightarrow> state \<Rightarrow> error + jsval \<times> state" where
  "pipe stream dest \<sigma> =
     (case (stream, dest) of
        (Ref s, Ref d) \<Rightarrow>
          (if kind (heap \<sigma> s) = Readable \<or> kind (heap \<sigma> s) = Gzip
           then Inr (dest, (attach stream \<sigma>)\<lparr>trace := trace \<sigma> @ [Piped s d]\<rparr>)
           else Inl TypeError)
      | _ \<Rightarrow> Inl TypeError)"

text \<open>
  \<^verbatim>\<open>spawn(command, args)\<close> of \<^verbatim>\<open>child_process\<close>. Node checks the arguments before it creates
  anything: an empty command, or a NUL byte in the command or in an argument, makes the
  call throw (\<^verbatim>\<open>ERR_INVALID_ARG_VALUE\<close>, a \<^verbatim>\<open>TypeError\<close>). Otherwise the call returns a new
  child-process handle whose property \<^verbatim>\<open>stdout\<close> is a new readable stream, and does not wait
  for the process; a command that cannot be started is reported later, by an \<^verbatim>\<open>'error'\<close>
  event of the handle.
\<close>

definition valid_spawn_args :: "string \<Rightarrow> string list \<Rightarrow> bool" where
  "valid_spawn_args command args =
     (command \<noteq> [] \<and> CHR 0x00 \<notin> set command \<and> list_all (\<lambda>a. CHR 0x00 \<notin> set a) args)"

definition spawn :: "string \<Rightarrow> string list \<Rightarrow> state \<Rightarrow> error + jsval \<times> state" where
  "spawn command args \<sigma> =
     (if \<not> valid_spawn_args command args then Inl TypeError
      else
        (let (out, \<sigma>1) = alloc Readable Map.empty \<sigma>;
             (c, \<sigma>2) = alloc ChildProcess [''stdout'' \<mapsto> Ref out] \<sigma>1
         in Inr (Ref c, \<sigma>2\<lparr>trace := trace \<sigma>2 @ [Spawned command args c]\<rparr>)))"

text \<open>\<^verbatim>\<open>emitter.on(name, listener)\<close>: the listener is added after those already there.\<close>

definition on :: "jsval \<Rightarrow> string \<Rightarrow> listener \<Rightarrow> state \<Rightarrow> state" where
  "on emitter name l \<sigma> =
     (case emitter of
        Ref c \<Rightarrow> \<sigma>\<lparr>listeners := listeners \<sigma> @ [(c, name, l)]\<rparr>
      | _ \<Rightarrow> \<sigma>)"

text \<open>\<^verbatim>\<open>self.emit(name, payload)\<close>: a signal of the instance, seen by the caller's handlers.\<close>

definition emit :: "string \<Rightarrow> jsval \<Rightarrow> state \<Rightarrow> state" where
  "emit name payload \<sigma> = \<sigma>\<lparr>trace := trace \<sigma> @ [Emitted name payload]\<rparr>"

text \<open>
  \<^verbatim>\<open>this.s3Conn.upload(params, options, callback)\<close>: the managed multipart upload is started.
  The client keeps the callback for the end of the upload, and when the \<^verbatim>\<open>Body\<close> of the
  parameters is a stream it attaches itself to that stream as its consumer.
\<close>

definition s3_upload :: "jsval \<Rightarrow> jsval \<Rightarrow> callback \<Rightarrow> state \<Rightarrow> state" where
  "s3_upload params options cb \<sigma> =
     (attach (get_prop \<sigma> params ''Body'') \<sigma>)\<lparr>trace := trace \<sigma> @ [S3Upload params options cb]\<rparr>"

section \<open>The class \<^verbatim>\<open>COSRedirector\<close>\<close>

text \<open>
  The completion callback handed to the storage client:
  \<^verbatim>\<open>
    function(err, data) {
        if(err!=null) { self.emit('upload_error', err) }
        else          { self.emit('upload_finish', data) }
    }
  \<close>
  The loose comparison \<^verbatim>\<open>err != null\<close> is false for \<^verbatim>\<open>null\<close> and for \<^verbatim>\<open>undefined\<close>.
\<close>

definition upload_callback :: "jsval \<Rightarrow> jsval \<Rightarrow> state \<Rightarrow> state" where
  "upload_callback err data \<sigma> =
     (if err \<noteq> Null \<and> err \<noteq> Undefined
      then emit ''upload_error'' err \<sigma>
      else emit ''upload_finish'' data \<sigma>)"

text \<open>The storage client ends an upload by calling the callback it was given.\<close>

fun run_callback :: "callback \<Rightarrow> jsval \<Rightarrow> jsval \<Rightarrow> state \<Rightarrow> state" where
  "run_callback OnUploadDone err data \<sigma> = upload_callback err data \<sigma>"

text \<open>
  \<^verbatim>\<open>
    uploadStreamToCOS(stream, bucket_options, transfer_options, compressed=false) {
        const gzip = compressed ? createGzip() : null
        const readStream = compressed ? stream.pipe(gzip) : stream
        const params = extend(false, bucket_options, {Body: readStream})
        const options = extend(false, transfer_options, {partSize: 10 * 1024 * 1024, queueSize: 10});
        const self = this;
        this.s3Conn.upload(params, options, function(err, data) { ... });
    }
  \<close>
\<close>

definition uploadStreamToCOS :: "jsval \<Rightarrow> jsval \<Rightarrow> jsval \<Rightarrow> jsval \<Rightarrow> state \<Rightarrow> error + state" where
  "uploadStreamToCOS stream bucket_options transfer_options compressed_arg \<sigma> =
     (let compressed = default_param compressed_arg (BoolV False);
          (gzip, \<sigma>1) = (if truthy compressed then createGzip \<sigma> else (Null, \<sigma>))
      in case (if truthy compressed then pipe stream gzip \<sigma>1 else Inr (stream, \<sigma>1)) of
           Inl e \<Rightarrow> Inl e
         | Inr (readStream, \<sigma>2) \<Rightarrow>
             (let (params, \<sigma>3) = extend bucket_options [(''Body'', readStream)] \<sigma>2;
                  (options, \<sigma>4) =
                    extend transfer_options
                      [(''partSize'', NumV (10 * 1024 * 1024)), (''queueSize'', NumV 10)] \<sigma>3
              in Inr (s3_upload params options OnUploadDone \<sigma>4)))"

text \<open>
  The two listeners of \<^verbatim>\<open>execCommandAndSendToCOS\<close>:
  \<^verbatim>\<open>
    child_process.on('exit', (code) => { self.emit('command_exit', code) })
    child_process.on('error', (err) => { self.emit('command_init_error', err) })
  \<close>
\<close>

fun run_listener :: "listener \<Rightarrow> jsval \<Rightarrow> state \<Rightarrow> state" where
  "run_listener OnExit code \<sigma> = emit ''command_exit'' code \<sigma>"
| "run_listener OnError err \<sigma> = emit ''command_init_error'' err \<sigma>"

text \<open>
  \<^verbatim>\<open>
    async execCommandAndSendToCOS(command, args, bucket_options, transfer_options, compressed=false) {
        const self = this
        const child_process = spawn(command, args)
        child_process.on('exit', ...)
        child_process.on('error', ...)
        this.uploadStreamToCOS(child_process.stdout, bucket_options, transfer_options, compressed)
    }
  \<close>
  An exception inside the asynchronous function (from \<^verbatim>\<open>spawn\<close> or from the upload) rejects
  its promise; it is the \<open>Inl\<close> result.
\<close>

definition execCommandAndSendToCOS ::
  "string \<Rightarrow> string list \<Rightarrow> jsval \<Rightarrow> jsval \<Rightarrow> jsval \<Rightarrow> state \<Rightarrow> error + state" where
  "execCommandAndSendToCOS command args bucket_options transfer_options compressed_arg \<sigma> =
     (let compressed = default_param compressed_arg (BoolV False)
      in case spawn command args \<sigma> of
           Inl e \<Rightarrow> Inl e
         | Inr (child_process, \<sigma>1) \<Rightarrow>
             (let \<sigma>2 = on child_process ''exit'' OnExit \<sigma>1;
                  \<sigma>3 = on child_process ''error'' OnError \<sigma>2
              in uploadStreamToCOS (get_prop \<sigma>3 child_process ''stdout'')
                   bucket_options transfer_options compressed \<sigma>3))"

section \<open>The environment: lifecycle events of a child process\<close>

text \<open>
  A child process delivers \<^verbatim>\<open>'exit'\<close> events (with the status code) and \<^verbatim>\<open>'error'\<close> events
  (with an error object). Delivering an event runs, in the order of registration, every
  listener registered on that child under the event's name.
\<close>

datatype child_event = ChildExit jsval | ChildError jsval

fun event_name :: "child_event \<Rightarrow> string" where
  "event_name (ChildExit code) = ''exit''"
| "event_name (ChildError err) = ''error''"

fun event_arg :: "child_event \<Rightarrow> jsval" where
  "event_arg (ChildExit code) = code"
| "event_arg (ChildError err) = err"

fun run_listeners :: "(addr \<times> string \<times> listener) list \<Rightarrow> addr \<Rightarrow> child_event \<Rightarrow> state \<Rightarrow> state" where
  "run_listeners [] c ev \<sigma> = \<sigma>"
| "run_listeners ((c', name, l) # ls) c ev \<sigma> =
     run_listeners ls c ev
       (if c' = c \<and> name = event_name ev then run_listener l (event_arg ev) \<sigma> else \<sigma>)"

definition deliver :: "addr \<Rightarrow> child_event \<Rightarrow> state \<Rightarrow> state" where
  "deliver c ev \<sigma> = run_listeners (listeners \<sigma>) c ev \<sigma>"




section \<open>Observations and well-formed inputs\<close>

text \<open>The calls of the storage client and the signals of the instance, read off the trace.\<close>

fun s3_call :: "effect \<Rightarrow> (jsval \<times> jsval) option" where
  "s3_call (S3Upload p opts cb) = Some (p, opts)"
| "s3_call e = None"

definition s3_calls :: "state \<Rightarrow> (jsval \<times> jsval) list" where
  "s3_calls \<sigma> = List.map_filter s3_call (trace \<sigma>)"

fun signal :: "effect \<Rightarrow> (string \<times> jsval) option" where
  "signal (Emitted name payload) = Some (name, payload)"
| "signal e = None"

definition signals :: "state \<Rightarrow> (string \<times> jsval) list" where
  "signals \<sigma> = List.map_filter signal (trace \<sigma>)"

text \<open>The callbacks the storage client has been given, one for each of its uploads.\<close>

fun given_callback :: "effect \<Rightarrow> callback option" where
  "given_callback (S3Upload p opts cb) = Some cb"
| "given_callback e = None"

definition callbacks :: "state \<Rightarrow> callback list" where
  "callbacks \<sigma> = List.map_filter given_callback (trace \<sigma>)"

text \<open>How often a signal of a given name has fired.\<close>

definition fired :: "string \<Rightarrow> state \<Rightarrow> nat" where
  "fired name \<sigma> = length (filter (\<lambda>s. fst s = name) (signals \<sigma>))"

fun is_ref :: "jsval \<Rightarrow> bool" where
  "is_ref (Ref a) = True"
| "is_ref v = False"

text \<open>The object \<^verbatim>\<open>extend\<close> writes to: the target itself, or else the new object it makes.\<close>

fun target_addr :: "jsval \<Rightarrow> state \<Rightarrow> addr" where
  "target_addr (Ref a) \<sigma> = a"
| "target_addr v \<sigma> = nxt \<sigma>"

text \<open>A value that is a readable stream, so that \<^verbatim>\<open>pipe\<close> can be called on it.\<close>

definition is_stream :: "state \<Rightarrow> jsval \<Rightarrow> bool" where
  "is_stream \<sigma> v =
     (case v of Ref s \<Rightarrow> kind (heap \<sigma> s) = Readable \<or> kind (heap \<sigma> s) = Gzip | _ \<Rightarrow> False)"

text \<open>A value of the caller refers, if to an object at all, to one that exists.\<close>

definition allocated :: "state \<Rightarrow> jsval \<Rightarrow> bool" where
  "allocated \<sigma> v = (case v of Ref a \<Rightarrow> a < nxt \<sigma> | _ \<Rightarrow> True)"

text \<open>Listeners are registered on objects that exist.\<close>

definition listeners_allocated :: "state \<Rightarrow> bool" where
  "listeners_allocated \<sigma> = list_all (\<lambda>(a, name, l). a < nxt \<sigma>) (listeners \<sigma>)"

text \<open>The caller's transfer options give neither a part size nor a queue size.\<close>

definition no_overrides :: "state \<Rightarrow> jsval \<Rightarrow> bool" where
  "no_overrides \<sigma> t =
     (get_prop \<sigma> t ''partSize'' = Undefined \<and> get_prop \<sigma> t ''queueSize'' = Undefined)"

text \<open>The state once a gzip transform has been created and the stream \<open>s\<close> piped into it.\<close>

definition gzipped :: "addr \<Rightarrow> state \<Rightarrow> state" where
  "gzipped s \<sigma> =
     (let h = (heap \<sigma>)(nxt \<sigma> := \<lparr>kind = Gzip, props = Map.empty, attached = False\<rparr>)
      in \<sigma>\<lparr>heap := h(s := (h s)\<lparr>attached := True\<rparr>), nxt := Suc (nxt \<sigma>),
            trace := trace \<sigma> @ [GzipCreated (nxt \<sigma>), Piped s (nxt \<sigma>)]\<rparr>)"

text \<open>The signal a lifecycle event of the child is turned into by the two listeners.\<close>

fun signal_of :: "child_event \<Rightarrow> effect" where
  "signal_of (ChildExit code) = Emitted ''command_exit'' code"
| "signal_of (ChildError err) = Emitted ''command_init_error'' err"

text \<open>
  The caller's objects in the usage example of the README: a readable stream at address 0,
  \<^verbatim>\<open>bucket_options = {Bucket: 'test-backups', Key: 'pg_dump.bkp.gz'}\<close> at address 1 and
  \<^verbatim>\<open>transfer_options = {partSize: 20 * 1024 * 1024, queueSize: 20}\<close> at address 2.
\<close>

definition readme_state :: state where
  "readme_state =
     \<lparr>heap = (\<lambda>a. \<lparr>kind = Plain, props = Map.empty, attached = False\<rparr>)
        (0 := \<lparr>kind = Readable, props = Map.empty, attached = False\<rparr>,
         1 := \<lparr>kind = Plain,
                props = [''Bucket'' \<mapsto> StrV ''test-backups'', ''Key'' \<mapsto> StrV ''pg_dump.bkp.gz''],
                attached = False\<rparr>,
         2 := \<lparr>kind = Plain,
                props = [''partSize'' \<mapsto> NumV (20 * 1024 * 1024), ''queueSize'' \<mapsto> NumV 20],
                attached = False\<rparr>),
      nxt = 3, listeners = [], trace = []\<rparr>"

text \<open>
  The last three statements of \<^verbatim>\<open>uploadStreamToCOS\<close> on the state they start from: the merge into
  the bucket options, the merge into the transfer options, and the call of the storage
  client with the two merged objects.
\<close>

definition merge_and_upload :: "jsval \<Rightarrow> jsval \<Rightarrow> jsval \<Rightarrow> state \<Rightarrow> state" where
  "merge_and_upload body b t \<sigma> =
     s3_upload (Ref (target_addr b \<sigma>))
       (Ref (target_addr t (snd (extend b [(''Body'', body)] \<sigma>)))) OnUploadDone
       (snd (extend t [(''partSize'', NumV (10 * 1024 * 1024)), (''queueSize'', NumV 10)]
              (snd (extend b [(''Body'', body)] \<sigma>))))"

text \<open>
  The state once \<^verbatim>\<open>execCommandAndSendToCOS\<close> has spawned the child and registered its two
  listeners: the standard output at the first free address, the child right after it.
\<close>

definition spawned :: "string \<Rightarrow> string list \<Rightarrow> state \<Rightarrow> state" where
  "spawned command args \<sigma> =
     \<sigma>\<lparr>heap := (heap \<sigma>)
          (nxt \<sigma> := \<lparr>kind = Readable, props = Map.empty, attached = False\<rparr>,
           Suc (nxt \<sigma>) := \<lparr>kind = ChildProcess, props = [''stdout'' \<mapsto> Ref (nxt \<sigma>)],
                            attached = False\<rparr>),
       nxt := Suc (Suc (nxt \<sigma>)),
       trace := trace \<sigma> @ [Spawned command args (Suc (nxt \<sigma>))],
       listeners := listeners \<sigma> @
          [(Suc (nxt \<sigma>), ''exit'', OnExit), (Suc (nxt \<sigma>), ''error'', OnError)]\<rparr>"

text \<open>
  The state \<^verbatim>\<open>execCommandAndSendToCOS\<close> ends in when \<^verbatim>\<open>spawn\<close> accepts its arguments (shown
  below to be its result).
\<close>

definition exec_state :: "string \<Rightarrow> string list \<Rightarrow> jsval \<Rightarrow> jsval \<Rightarrow> jsval \<Rightarrow> state \<Rightarrow> state" where
  "exec_state command args b t c \<sigma> =
     (if truthy (default_param c (BoolV False))
      then merge_and_upload (Ref (Suc (Suc (nxt \<sigma>)))) b t
             (gzipped (nxt \<sigma>) (spawned command args \<sigma>))
      else merge_and_upload (Ref (nxt \<sigma>)) b t (spawned command args \<sigma>))"

section \<open>Facts about the collaborators\<close>

lemma extend_fst: "fst (extend v opts \<sigma>) = Ref (target_addr v \<sigma>)"
  by (cases v) (simp_all add: extend_def alloc_def Let_def)

lemma extend_trace: "trace (snd (extend v opts \<sigma>)) = trace \<sigma>"
  by (cases v) (simp_all add: extend_def alloc_def Let_def)

lemma extend_listeners: "listeners (snd (extend v opts \<sigma>)) = listeners \<sigma>"
  by (cases v) (simp_all add: extend_def alloc_def Let_def)

lemma extend_nxt: "nxt (snd (extend v opts \<sigma>)) = (if is_ref v then nxt \<sigma> else Suc (nxt \<sigma>))"
  by (cases v) (simp_all add: extend_def alloc_def Let_def)

lemma extend_heap_other:
  "a \<noteq> target_addr v \<sigma> \<Longrightarrow> heap (snd (extend v opts \<sigma>)) a = heap \<sigma> a"
  by (cases v) (simp_all add: extend_def alloc_def Let_def)

lemma extend_kind:
  "kind (heap (snd (extend v opts \<sigma>)) (target_addr v \<sigma>)) =
     (if is_ref v then kind (heap \<sigma> (target_addr v \<sigma>)) else Plain)"
  by (cases v) (simp_all add: extend_def alloc_def Let_def)

lemma extend_props:
  "props (heap (snd (extend v opts \<sigma>)) (target_addr v \<sigma>)) =
     copy_props (target_addr v \<sigma>) opts
       (if is_ref v then props (heap \<sigma> (target_addr v \<sigma>)) else Map.empty)"
  by (cases v) (simp_all add: extend_def alloc_def Let_def)

lemma defaults_props:
  "copy_props a [(''partSize'', NumV n), (''queueSize'', NumV m)] ps =
     ps(''partSize'' \<mapsto> NumV n, ''queueSize'' \<mapsto> NumV m)"
  by simp

lemma createGzip_eq:
  "createGzip \<sigma> =
     (Ref (nxt \<sigma>),
      \<sigma>\<lparr>heap := (heap \<sigma>)(nxt \<sigma> := \<lparr>kind = Gzip, props = Map.empty, attached = False\<rparr>),
        nxt := Suc (nxt \<sigma>), trace := trace \<sigma> @ [GzipCreated (nxt \<sigma>)]\<rparr>)"
  by (simp add: createGzip_def alloc_def)

lemma s3_calls_extend: "s3_calls (snd (extend v opts \<sigma>)) = s3_calls \<sigma>"
  by (simp add: s3_calls_def extend_trace)

lemma s3_calls_gzipped: "s3_calls (gzipped s \<sigma>) = s3_calls \<sigma>"
  by (simp add: s3_calls_def gzipped_def map_filter_def Let_def)

lemma s3_calls_s3_upload: "s3_calls (s3_upload p opts cb \<sigma>) = s3_calls \<sigma> @ [(p, opts)]"
  by (simp add: s3_calls_def s3_upload_def map_filter_def)

lemma attach_simps:
  "props (heap (attach v \<sigma>) a) = props (heap \<sigma> a)"
  "kind (heap (attach v \<sigma>) a) = kind (heap \<sigma> a)"
  "nxt (attach v \<sigma>) = nxt \<sigma>"
  "trace (attach v \<sigma>) = trace \<sigma>"
  "listeners (attach v \<sigma>) = listeners \<sigma>"
  by (cases v; simp add: attach_def)+

lemma attach_keeps: "attached (heap \<sigma> a) \<Longrightarrow> attached (heap (attach v \<sigma>) a)"
  by (cases v) (simp_all add: attach_def)

lemma attach_stream: "is_stream \<sigma> (Ref s) \<Longrightarrow> attached (heap (attach (Ref s) \<sigma>) s)"
  by (simp add: attach_def is_stream_def)

lemma s3_upload_simps:
  "props (heap (s3_upload p opts cb \<sigma>) a) = props (heap \<sigma> a)"
  "kind (heap (s3_upload p opts cb \<sigma>) a) = kind (heap \<sigma> a)"
  "nxt (s3_upload p opts cb \<sigma>) = nxt \<sigma>"
  "listeners (s3_upload p opts cb \<sigma>) = listeners \<sigma>"
  "trace (s3_upload p opts cb \<sigma>) = trace \<sigma> @ [S3Upload p opts cb]"
  by (simp_all add: s3_upload_def attach_simps)

lemma get_prop_s3_upload: "get_prop (s3_upload p opts cb \<sigma>) v k = get_prop \<sigma> v k"
  by (cases v) (simp_all add: get_prop_def s3_upload_simps)

section \<open>The upload, step by step\<close>

text \<open>Without compression the upload cannot fail: two merges, then the call of the client.\<close>

lemma upload_raw:
  assumes "\<not> truthy (default_param c (BoolV False))"
  shows "uploadStreamToCOS s b t c \<sigma> =
     Inr (s3_upload (Ref (target_addr b \<sigma>))
            (Ref (target_addr t (snd (extend b [(''Body'', s)] \<sigma>)))) OnUploadDone
            (snd (extend t [(''partSize'', NumV (10 * 1024 * 1024)), (''queueSize'', NumV 10)]
                   (snd (extend b [(''Body'', s)] \<sigma>)))))"
  using assms by (simp add: uploadStreamToCOS_def Let_def case_prod_beta extend_fst)

text \<open>Creating the gzip transform and piping the stream into it.\<close>

lemma gzip_pipe:
  assumes "is_stream \<sigma> (Ref s) \<or> s = nxt \<sigma>"
  shows "pipe (Ref s) (fst (createGzip \<sigma>)) (snd (createGzip \<sigma>)) = Inr (Ref (nxt \<sigma>), gzipped s \<sigma>)"
  using assms
  by (auto simp add: createGzip_eq pipe_def attach_def is_stream_def gzipped_def Let_def)

text \<open>With compression it succeeds on a readable stream, whose gzip transform becomes the body.\<close>

lemma upload_gzip:
  assumes "truthy (default_param c (BoolV False))" and "is_stream \<sigma> (Ref s)"
  shows "uploadStreamToCOS (Ref s) b t c \<sigma> =
     Inr (s3_upload (Ref (target_addr b (gzipped s \<sigma>)))
            (Ref (target_addr t (snd (extend b [(''Body'', Ref (nxt \<sigma>))] (gzipped s \<sigma>)))))
            OnUploadDone
            (snd (extend t [(''partSize'', NumV (10 * 1024 * 1024)), (''queueSize'', NumV 10)]
                   (snd (extend b [(''Body'', Ref (nxt \<sigma>))] (gzipped s \<sigma>))))))"
  using assms
  by (simp add: uploadStreamToCOS_def Let_def case_prod_beta extend_fst gzip_pipe)

text \<open>With compression and anything that is not a stream, \<^verbatim>\<open>stream.pipe\<close> throws.\<close>

lemma upload_throws:
  assumes "truthy (default_param c (BoolV False))" and "\<not> is_stream \<sigma> s" and "s \<noteq> Ref (nxt \<sigma>)"
  shows "uploadStreamToCOS s b t c \<sigma> = Inl TypeError"
  using assms
  by (cases s) (auto simp add: uploadStreamToCOS_def Let_def case_prod_beta createGzip_eq
        pipe_def is_stream_def)

lemma trace_s3_upload: "trace (s3_upload p opts cb \<sigma>) = trace \<sigma> @ [S3Upload p opts cb]"
  by (simp add: s3_upload_simps)

lemma copy_props_other: "k \<notin> fst ` set opts \<Longrightarrow> copy_props a opts ps k = ps k"
  by (induction opts arbitrary: ps) auto

lemma extend_props_at:
  "props (heap (snd (extend v opts \<sigma>)) a) =
     (if a = target_addr v \<sigma>
      then copy_props a opts (if is_ref v then props (heap \<sigma> a) else Map.empty)
      else props (heap \<sigma> a))"
  by (simp add: extend_props extend_heap_other)

lemma extend_kind_old: "a < nxt \<sigma> \<Longrightarrow> kind (heap (snd (extend v opts \<sigma>)) a) = kind (heap \<sigma> a)"
  by (cases v) (simp_all add: extend_def alloc_def Let_def)

lemma extend_attached_old:
  "a < nxt \<sigma> \<Longrightarrow> attached (heap (snd (extend v opts \<sigma>)) a) = attached (heap \<sigma> a)"
  by (cases v) (simp_all add: extend_def alloc_def Let_def)

lemma extend_props_old:
  "a < nxt \<sigma> \<Longrightarrow> v \<noteq> Ref a \<or> k \<notin> fst ` set opts \<Longrightarrow>
     props (heap (snd (extend v opts \<sigma>)) a) k = props (heap \<sigma> a) k"
  by (cases v) (auto simp add: extend_def alloc_def Let_def copy_props_other)

lemma target_below_nxt:
  "allocated \<sigma> b \<Longrightarrow> target_addr b \<sigma> < nxt (snd (extend b opts \<sigma>))"
  by (cases b) (simp_all add: allocated_def extend_nxt)

lemma fresh_target: "\<not> is_ref t \<Longrightarrow> target_addr t \<sigma> = nxt \<sigma>"
  by (cases t) simp_all

lemma allocated_mono: "allocated \<sigma> v \<Longrightarrow> nxt \<sigma> \<le> nxt \<sigma>' \<Longrightarrow> allocated \<sigma>' v"
  by (cases v) (simp_all add: allocated_def)

lemma target_not_value:
  "allocated \<sigma> v \<Longrightarrow> v \<noteq> b \<Longrightarrow> Ref (target_addr b \<sigma>) \<noteq> v"
  by (cases b; cases v) (auto simp add: allocated_def)

lemma target_not_fresh:
  "allocated \<sigma> b \<Longrightarrow> nxt \<sigma> \<le> n \<Longrightarrow> n < nxt \<sigma>' \<Longrightarrow> target_addr b \<sigma>' \<noteq> n"
  by (cases b) (auto simp add: allocated_def)

lemma gzipped_simps:
  "nxt (gzipped s \<sigma>) = Suc (nxt \<sigma>)"
  "trace (gzipped s \<sigma>) = trace \<sigma> @ [GzipCreated (nxt \<sigma>), Piped s (nxt \<sigma>)]"
  "listeners (gzipped s \<sigma>) = listeners \<sigma>"
  "kind (heap (gzipped s \<sigma>) (nxt \<sigma>)) = Gzip"
  "a < nxt \<sigma> \<Longrightarrow> kind (heap (gzipped s \<sigma>) a) = kind (heap \<sigma> a)"
  "a < nxt \<sigma> \<Longrightarrow> props (heap (gzipped s \<sigma>) a) = props (heap \<sigma> a)"
  "attached (heap (gzipped s \<sigma>) s)"
  by (simp_all add: gzipped_def Let_def)

lemma spawned_simps:
  "nxt (spawned command args \<sigma>) = Suc (Suc (nxt \<sigma>))"
  "trace (spawned command args \<sigma>) = trace \<sigma> @ [Spawned command args (Suc (nxt \<sigma>))]"
  "listeners (spawned command args \<sigma>) =
     listeners \<sigma> @ [(Suc (nxt \<sigma>), ''exit'', OnExit), (Suc (nxt \<sigma>), ''error'', OnError)]"
  "heap (spawned command args \<sigma>) (nxt \<sigma>) =
     \<lparr>kind = Readable, props = Map.empty, attached = False\<rparr>"
  "heap (spawned command args \<sigma>) (Suc (nxt \<sigma>)) =
     \<lparr>kind = ChildProcess, props = [''stdout'' \<mapsto> Ref (nxt \<sigma>)], attached = False\<rparr>"
  "a < nxt \<sigma> \<Longrightarrow> heap (spawned command args \<sigma>) a = heap \<sigma> a"
  by (simp_all add: spawned_def)

lemma stdout_is_stream: "is_stream (spawned command args \<sigma>) (Ref (nxt \<sigma>))"
  by (simp add: is_stream_def spawned_simps)

lemma signals_append:
  "trace \<sigma>' = trace \<sigma> @ es \<Longrightarrow> signals \<sigma>' = signals \<sigma> @ List.map_filter signal es"
  by (simp add: signals_def map_filter_def)


lemma callbacks_append:
  "trace \<sigma>' = trace \<sigma> @ es \<Longrightarrow>
     callbacks \<sigma>' = callbacks \<sigma> @ List.map_filter given_callback es"
  by (simp add: callbacks_def map_filter_def)

lemma readme_state_facts:
  "is_stream readme_state (Ref 0)" "allocated readme_state (Ref 0)"
  "allocated readme_state (Ref 1)" "allocated readme_state (Ref 2)" "nxt readme_state = 3"
  "trace readme_state = []" "listeners_allocated readme_state"
  by (simp_all add: is_stream_def allocated_def listeners_allocated_def readme_state_def)

lemma readme_args: "valid_spawn_args ''pg_dump'' [''-F'', ''custom'']" "valid_spawn_args ''pg_dump'' []"
  by (simp_all add: valid_spawn_args_def)

section \<open>The merges and the call of the storage client\<close>

text \<open>
  The body written by the first merge is still there after the second.
\<close>

lemma body_after_merges:
  assumes "allocated \<sigma> b" and "Ref (target_addr b \<sigma>) \<noteq> v" and "v \<noteq> Undefined"
  shows "get_prop
           (snd (extend t [(''partSize'', NumV n), (''queueSize'', NumV m)]
                  (snd (extend b [(''Body'', v)] \<sigma>))))
           (Ref (target_addr b \<sigma>)) ''Body'' = v"
proof -
  let ?\<sigma>3 = "snd (extend b [(''Body'', v)] \<sigma>)"
  have body: "props (heap ?\<sigma>3 (target_addr b \<sigma>)) ''Body'' = Some v"
    using assms(2,3) by (simp add: extend_props_at)
  have ref: "target_addr t ?\<sigma>3 = target_addr b \<sigma> \<Longrightarrow> is_ref t"
    using target_below_nxt [OF assms(1), of "[(''Body'', v)]"] fresh_target [of t ?\<sigma>3] by auto
  have "props (heap (snd (extend t [(''partSize'', NumV n), (''queueSize'', NumV m)] ?\<sigma>3))
          (target_addr b \<sigma>)) ''Body'' = props (heap ?\<sigma>3 (target_addr b \<sigma>)) ''Body''"
    using ref
    by (cases "target_addr t ?\<sigma>3 = target_addr b \<sigma>")
       (simp_all add: extend_props_at [of t] del: copy_props.simps add: defaults_props)
  with body show ?thesis by (simp add: get_prop_def)
qed

lemma upload_raw_merge:
  "\<not> truthy (default_param c (BoolV False)) \<Longrightarrow>
     uploadStreamToCOS s b t c \<sigma> = Inr (merge_and_upload s b t \<sigma>)"
  by (simp add: upload_raw merge_and_upload_def)

lemma upload_gzip_merge:
  "truthy (default_param c (BoolV False)) \<Longrightarrow> is_stream \<sigma> (Ref s) \<Longrightarrow>
     uploadStreamToCOS (Ref s) b t c \<sigma> = Inr (merge_and_upload (Ref (nxt \<sigma>)) b t (gzipped s \<sigma>))"
  by (simp add: upload_gzip merge_and_upload_def)

lemma upload_gzip_self:
  assumes "truthy (default_param c (BoolV False))"
  shows "uploadStreamToCOS (Ref (nxt \<sigma>)) b t c \<sigma> =
           Inr (merge_and_upload (Ref (nxt \<sigma>)) b t (gzipped (nxt \<sigma>) \<sigma>))"
  using assms
  by (simp add: uploadStreamToCOS_def Let_def case_prod_beta extend_fst gzip_pipe
        merge_and_upload_def)

lemma upload_Inr:
  assumes "uploadStreamToCOS stream b t c \<sigma> = Inr \<sigma>'"
  shows "\<sigma>' = merge_and_upload stream b t \<sigma>
       \<or> (\<exists>s. stream = Ref s \<and> \<sigma>' = merge_and_upload (Ref (nxt \<sigma>)) b t (gzipped s \<sigma>))"
proof (cases "truthy (default_param c (BoolV False))")
  case False
  with assms show ?thesis by (simp add: upload_raw_merge)
next
  case True
  show ?thesis
  proof (cases "is_stream \<sigma> stream")
    case st: True
    then obtain s where "stream = Ref s" by (cases stream) (simp_all add: is_stream_def)
    with assms True st show ?thesis by (simp add: upload_gzip_merge)
  next
    case nst: False
    show ?thesis
    proof (cases "stream = Ref (nxt \<sigma>)")
      case True
      with assms \<open>truthy (default_param c (BoolV False))\<close> show ?thesis
        by (simp add: upload_gzip_self)
    next
      case False
      with assms True nst show ?thesis by (simp add: upload_throws)
    qed
  qed
qed

lemma merge_trace:
  "trace (merge_and_upload body b t \<sigma>) =
     trace \<sigma> @ [S3Upload (Ref (target_addr b \<sigma>))
                  (Ref (target_addr t (snd (extend b [(''Body'', body)] \<sigma>)))) OnUploadDone]"
  by (simp add: merge_and_upload_def trace_s3_upload extend_trace)

lemma merge_listeners: "listeners (merge_and_upload body b t \<sigma>) = listeners \<sigma>"
  by (simp add: merge_and_upload_def s3_upload_simps extend_listeners)

lemma merge_body:
  "allocated \<sigma> b \<Longrightarrow> Ref (target_addr b \<sigma>) \<noteq> v \<Longrightarrow> v \<noteq> Undefined \<Longrightarrow>
     get_prop (merge_and_upload v b t \<sigma>) (Ref (target_addr b \<sigma>)) ''Body'' = v"
  using body_after_merges [of \<sigma> b v t]
  by (simp add: merge_and_upload_def get_prop_s3_upload)

lemma merge_kind:
  assumes "a < nxt \<sigma>"
  shows "kind (heap (merge_and_upload body b t \<sigma>) a) = kind (heap \<sigma> a)"
proof -
  let ?\<sigma>3 = "snd (extend b [(''Body'', body)] \<sigma>)"
  have "a < nxt ?\<sigma>3" using assms by (simp add: extend_nxt)
  then show ?thesis
    using assms by (simp add: merge_and_upload_def s3_upload_simps extend_kind_old)
qed

lemma merge_props:
  assumes "a < nxt \<sigma>"
    and "b \<noteq> Ref a \<or> k \<noteq> ''Body''"
    and "t \<noteq> Ref a \<or> (k \<noteq> ''partSize'' \<and> k \<noteq> ''queueSize'')"
  shows "props (heap (merge_and_upload body b t \<sigma>) a) k = props (heap \<sigma> a) k"
proof -
  let ?\<sigma>3 = "snd (extend b [(''Body'', body)] \<sigma>)"
  have 1: "props (heap ?\<sigma>3 a) k = props (heap \<sigma> a) k"
    using assms(1,2) by (intro extend_props_old) auto
  have "a < nxt ?\<sigma>3" using assms(1) by (simp add: extend_nxt)
  then have "props (heap (snd (extend t [(''partSize'', NumV (10 * 1024 * 1024)), (''queueSize'', NumV 10)] ?\<sigma>3)) a) k
               = props (heap ?\<sigma>3 a) k"
    using assms(3) by (intro extend_props_old) auto
  with 1 show ?thesis by (simp add: merge_and_upload_def s3_upload_simps)
qed

lemma upload_callbacks:
  assumes "uploadStreamToCOS stream b t c \<sigma> = Inr \<sigma>'"
  shows "callbacks \<sigma>' = callbacks \<sigma> @ [OnUploadDone]" and "signals \<sigma>' = signals \<sigma>"
  using upload_Inr [OF assms]
  by (auto simp add: callbacks_def signals_def merge_trace gzipped_simps map_filter_def)

lemma merge_attached_old:
  "a < nxt \<sigma> \<Longrightarrow> attached (heap \<sigma> a) \<Longrightarrow> attached (heap (merge_and_upload body b t \<sigma>) a)"
  by (simp add: merge_and_upload_def s3_upload_def attach_keeps extend_attached_old extend_nxt)

lemma merge_attaches_body:
  assumes "allocated \<sigma> b" and "Ref (target_addr b \<sigma>) \<noteq> Ref s" and "is_stream \<sigma> (Ref s)"
    and "s < nxt \<sigma>"
  shows "attached (heap (merge_and_upload (Ref s) b t \<sigma>) s)"
proof -
  let ?\<sigma>4 = "snd (extend t [(''partSize'', NumV (10 * 1024 * 1024)), (''queueSize'', NumV 10)]
                (snd (extend b [(''Body'', Ref s)] \<sigma>)))"
  have body: "get_prop ?\<sigma>4 (Ref (target_addr b \<sigma>)) ''Body'' = Ref s"
    using assms(1,2) by (intro body_after_merges) simp_all
  have "kind (heap ?\<sigma>4 s) = kind (heap \<sigma> s)"
    using assms(4) by (simp add: extend_kind_old extend_nxt)
  then have "is_stream ?\<sigma>4 (Ref s)"
    using assms(3) by (simp add: is_stream_def)
  then show ?thesis
    using body by (simp add: merge_and_upload_def s3_upload_def attach_stream)
qed

section \<open>Running a command\<close>

text \<open>
  When \<^verbatim>\<open>spawn\<close> refuses its arguments, \<^verbatim>\<open>execCommandAndSendToCOS\<close> ends there: there is no
  child, no listener and no upload. Otherwise it does not throw: the stream it hands on is
  the child's standard output, on which \<^verbatim>\<open>pipe\<close> can be called.
\<close>

lemma exec_invalid:
  "\<not> valid_spawn_args command args \<Longrightarrow>
     execCommandAndSendToCOS command args b t c \<sigma> = Inl TypeError"
  by (simp add: execCommandAndSendToCOS_def spawn_def)

lemma exec_eq:
  "valid_spawn_args command args \<Longrightarrow>
   execCommandAndSendToCOS command args b t c \<sigma> =
     uploadStreamToCOS (Ref (nxt \<sigma>)) b t (default_param c (BoolV False)) (spawned command args \<sigma>)"
  by (simp add: execCommandAndSendToCOS_def spawn_def alloc_def on_def get_prop_def spawned_def
        Let_def)

lemma default_param_idem:
  "default_param (default_param c (BoolV False)) (BoolV False) = default_param c (BoolV False)"
  by (cases c) simp_all

lemma exec_result:
  "valid_spawn_args command args \<Longrightarrow>
   execCommandAndSendToCOS command args b t c \<sigma> = Inr (exec_state command args b t c \<sigma>)"
  by (simp add: exec_eq exec_state_def upload_raw_merge upload_gzip_merge default_param_idem
        stdout_is_stream spawned_simps)

lemma exec_state_facts:
  assumes "allocated \<sigma> b"
  shows "get_prop (exec_state command args b t c \<sigma>) (Ref (Suc (nxt \<sigma>))) ''stdout'' = Ref (nxt \<sigma>)"
    and "kind (heap (exec_state command args b t c \<sigma>) (nxt \<sigma>)) = Readable"
    and "kind (heap (exec_state command args b t c \<sigma>) (Suc (nxt \<sigma>))) = ChildProcess"
    and "listeners (exec_state command args b t c \<sigma>) =
           listeners \<sigma> @ [(Suc (nxt \<sigma>), ''exit'', OnExit), (Suc (nxt \<sigma>), ''error'', OnError)]"
  by (simp_all add: exec_state_def get_prop_def merge_props merge_kind merge_listeners
        gzipped_simps spawned_simps)

lemma exec_state_attached:
  assumes "allocated \<sigma> b"
  shows "attached (heap (exec_state command args b t c \<sigma>) (nxt \<sigma>))"
proof (cases "truthy (default_param c (BoolV False))")
  case True
  have "attached (heap (merge_and_upload (Ref (Suc (Suc (nxt \<sigma>)))) b t
                   (gzipped (nxt \<sigma>) (spawned command args \<sigma>))) (nxt \<sigma>))"
    by (rule merge_attached_old) (simp_all add: gzipped_simps spawned_simps)
  with True show ?thesis by (simp add: exec_state_def)
next
  case False
  let ?s = "spawned command args \<sigma>"
  have al: "allocated ?s b"
    using assms by (rule allocated_mono) (simp add: spawned_simps)
  have "target_addr b ?s \<noteq> nxt \<sigma>"
    using assms by (rule target_not_fresh) (simp_all add: spawned_simps)
  then have "attached (heap (merge_and_upload (Ref (nxt \<sigma>)) b t ?s) (nxt \<sigma>))"
    using al stdout_is_stream [of command args \<sigma>]
    by (intro merge_attaches_body) (simp_all add: spawned_simps)
  with False show ?thesis by (simp add: exec_state_def)
qed

lemma exec_state_raw:
  assumes "allocated \<sigma> b" and "\<not> truthy (default_param c (BoolV False))"
  shows "\<exists>p opts cb. trace (exec_state command args b t c \<sigma>) =
            trace \<sigma> @ [Spawned command args (Suc (nxt \<sigma>)), S3Upload p opts cb]
          \<and> get_prop (exec_state command args b t c \<sigma>) p ''Body'' = Ref (nxt \<sigma>)"
proof -
  let ?s = "spawned command args \<sigma>"
  have al: "allocated ?s b"
    using assms(1) by (rule allocated_mono) (simp add: spawned_simps)
  have "target_addr b ?s \<noteq> nxt \<sigma>"
    using assms(1) by (rule target_not_fresh) (simp_all add: spawned_simps)
  then have "get_prop (merge_and_upload (Ref (nxt \<sigma>)) b t ?s) (Ref (target_addr b ?s)) ''Body''
               = Ref (nxt \<sigma>)"
    using al by (intro merge_body) simp_all
  then show ?thesis
    using assms(2) by (simp add: exec_state_def merge_trace spawned_simps)
qed

lemma exec_state_gzip:
  assumes "allocated \<sigma> b" and "truthy (default_param c (BoolV False))"
  shows "\<exists>p opts cb. trace (exec_state command args b t c \<sigma>) =
            trace \<sigma> @ [Spawned command args (Suc (nxt \<sigma>)), GzipCreated (Suc (Suc (nxt \<sigma>))),
                       Piped (nxt \<sigma>) (Suc (Suc (nxt \<sigma>))), S3Upload p opts cb]
          \<and> get_prop (exec_state command args b t c \<sigma>) p ''Body'' = Ref (Suc (Suc (nxt \<sigma>)))
          \<and> kind (heap (exec_state command args b t c \<sigma>) (Suc (Suc (nxt \<sigma>)))) = Gzip"
proof -
  let ?s = "spawned command args \<sigma>"
  let ?g = "gzipped (nxt \<sigma>) ?s"
  have al: "allocated ?g b"
    using assms(1) by (rule allocated_mono) (simp add: spawned_simps gzipped_simps)
  have "target_addr b ?g \<noteq> Suc (Suc (nxt \<sigma>))"
    using assms(1) by (rule target_not_fresh) (simp_all add: spawned_simps gzipped_simps)
  then have "get_prop (merge_and_upload (Ref (Suc (Suc (nxt \<sigma>)))) b t ?g) (Ref (target_addr b ?g)) ''Body''
               = Ref (Suc (Suc (nxt \<sigma>)))"
    using al by (intro merge_body) simp_all
  moreover have "kind (heap (merge_and_upload (Ref (Suc (Suc (nxt \<sigma>)))) b t ?g) (Suc (Suc (nxt \<sigma>)))) = Gzip"
    using gzipped_simps(4) [of "nxt \<sigma>" ?s]
    by (simp add: merge_kind gzipped_simps spawned_simps)
  ultimately show ?thesis
    using assms(2) by (simp add: exec_state_def merge_trace spawned_simps gzipped_simps)
qed

lemma upload_succeeds:
  assumes "\<not> truthy (default_param c (BoolV False)) \<or> is_stream \<sigma> stream"
  shows "\<exists>\<sigma>'. uploadStreamToCOS stream b t c \<sigma> = Inr \<sigma>'"
proof (cases "truthy (default_param c (BoolV False))")
  case False
  then show ?thesis by (simp add: upload_raw_merge)
next
  case True
  with assms obtain s where "stream = Ref s" "is_stream \<sigma> (Ref s)"
    by (cases stream) (auto simp: is_stream_def)
  with True show ?thesis by (simp add: upload_gzip_merge)
qed

section \<open>Delivering lifecycle events\<close>

lemma run_listeners_append:
  "run_listeners (ls @ ls') c ev \<sigma> = run_listeners ls' c ev (run_listeners ls c ev \<sigma>)"
  by (induction ls arbitrary: \<sigma>) auto

lemma run_listeners_other:
  "list_all (\<lambda>(a, name, l). a < c) ls \<Longrightarrow> run_listeners ls c ev \<sigma> = \<sigma>"
  by (induction ls arbitrary: \<sigma>) auto

lemma deliver_registered:
  assumes "listeners \<sigma>' = ls @ [(c, ''exit'', OnExit), (c, ''error'', OnError)]"
    and "list_all (\<lambda>(a, name, l). a < c) ls"
  shows "deliver c ev \<sigma>' = \<sigma>'\<lparr>trace := trace \<sigma>' @ [signal_of ev]\<rparr>"
  using assms by (cases ev) (simp_all add: deliver_def run_listeners_append run_listeners_other emit_def)


lemma listeners_below_child:
  "listeners_allocated \<sigma> \<Longrightarrow> list_all (\<lambda>(a, name, l). a < Suc (nxt \<sigma>)) (listeners \<sigma>)"
  by (auto simp add: listeners_allocated_def list_all_iff)

section \<open>Transfer options\<close>

text \<open>
  Claim C6. When the caller supplies no transfer-configuration overrides (the transfer
  options are omitted, or are an object with neither \<^verbatim>\<open>partSize\<close> nor \<^verbatim>\<open>queueSize\<close>), an
  upload that does not throw calls the storage client once, and the options object it
  forwards has part size 10 MiB (10 * 1024 * 1024 bytes) and queue size 10; when the
  caller passed no options object at all, these two are its only fields.
\<close>

theorem default_transfer_configuration:
  assumes "\<not> truthy (default_param c (BoolV False)) \<or> is_stream \<sigma> stream"
    and "no_overrides \<sigma> t"
  shows "\<exists>\<sigma>' p a. uploadStreamToCOS stream b t c \<sigma> = Inr \<sigma>'
           \<and> s3_calls \<sigma>' = s3_calls \<sigma> @ [(p, Ref a)]
           \<and> get_prop \<sigma>' (Ref a) ''partSize'' = NumV (10 * 1024 * 1024)
           \<and> get_prop \<sigma>' (Ref a) ''queueSize'' = NumV 10
           \<and> (\<not> is_ref t \<longrightarrow>
                props (heap \<sigma>' a) = [''partSize'' \<mapsto> NumV (10 * 1024 * 1024), ''queueSize'' \<mapsto> NumV 10])"
proof (cases "truthy (default_param c (BoolV False))")
  case False
  show ?thesis
    unfolding upload_raw [OF False]
    by (simp add: s3_calls_s3_upload s3_calls_extend s3_upload_simps get_prop_def
          extend_props del: copy_props.simps add: defaults_props)
next
  case True
  with assms(1) obtain s where s: "stream = Ref s" "is_stream \<sigma> (Ref s)"
    by (cases stream) (auto simp: is_stream_def)
  show ?thesis
    unfolding s(1) upload_gzip [OF True s(2)]
    by (simp add: s3_calls_s3_upload s3_calls_extend s3_calls_gzipped s3_upload_simps get_prop_def
          extend_props del: copy_props.simps add: defaults_props)
qed

theorem default_transfer_configuration_witness:
  "is_stream readme_state (Ref 0) \<and> no_overrides readme_state Undefined \<and>
   (\<exists>\<sigma>' p a. uploadStreamToCOS (Ref 0) (Ref 1) Undefined (BoolV True) readme_state = Inr \<sigma>'
           \<and> s3_calls \<sigma>' = s3_calls readme_state @ [(p, Ref a)]
           \<and> get_prop \<sigma>' (Ref a) ''partSize'' = NumV (10 * 1024 * 1024)
           \<and> get_prop \<sigma>' (Ref a) ''queueSize'' = NumV 10
           \<and> props (heap \<sigma>' a) = [''partSize'' \<mapsto> NumV (10 * 1024 * 1024), ''queueSize'' \<mapsto> NumV 10])"
proof -
  have st: "is_stream readme_state (Ref 0)"
    by (simp add: is_stream_def readme_state_def)
  have no: "no_overrides readme_state Undefined"
    by (simp add: no_overrides_def get_prop_def)
  from default_transfer_configuration
         [of "BoolV True" readme_state "Ref 0" Undefined "Ref 1", OF disjI2 [OF st] no]
  show ?thesis using st no by simp
qed

text \<open>
  Claim C1. The caller's \<^verbatim>\<open>partSize\<close> and \<^verbatim>\<open>queueSize\<close> should reach the storage client. They
  do not: \<^verbatim>\<open>extend(false, transfer_options, {partSize: ..., queueSize: 10})\<close> writes the
  defaults onto the caller's object. With the objects of the README's example (parts of
  20 MiB, 20 concurrent parts) the upload forwards the caller's own options object, by
  then holding part size 10 MiB and queue size 10.
\<close>

theorem caller_transfer_options_replaced:
  "get_prop readme_state (Ref 2) ''partSize'' = NumV 20971520 \<and>
   get_prop readme_state (Ref 2) ''queueSize'' = NumV 20 \<and>
   (\<exists>\<sigma>'. uploadStreamToCOS (Ref 0) (Ref 1) (Ref 2) (BoolV True) readme_state = Inr \<sigma>' \<and>
      s3_calls \<sigma>' = [(Ref 1, Ref 2)] \<and>
      get_prop \<sigma>' (Ref 2) ''partSize'' = NumV 10485760 \<and>
      get_prop \<sigma>' (Ref 2) ''queueSize'' = NumV 10)"
proof -
  have st: "is_stream readme_state (Ref 0)"
    by (simp add: is_stream_def readme_state_def)
  have "truthy (default_param (BoolV True) (BoolV False))" by simp
  note up = upload_gzip [OF this st]
  show ?thesis
    unfolding up
    by (simp add: s3_calls_s3_upload s3_calls_extend s3_calls_gzipped s3_upload_simps get_prop_def
          extend_props)
       (simp add: readme_state_def s3_calls_def map_filter_def gzipped_def extend_def Let_def)
qed

section \<open>What the upload writes to the caller's objects\<close>

text \<open>
  Claim C2 says that the upload leaves the caller's \<^verbatim>\<open>bucket_options\<close> and \<^verbatim>\<open>transfer_options\<close>
  as they were. It does not: the upload writes the field \<^verbatim>\<open>Body\<close> into \<^verbatim>\<open>bucket_options\<close>. What
  holds instead (claim C2, amended): after \<^verbatim>\<open>uploadStreamToCOS\<close> returns, every field of the
  caller's \<^verbatim>\<open>bucket_options\<close> object other than \<^verbatim>\<open>Body\<close>, and every field of the caller's
  \<^verbatim>\<open>transfer_options\<close> object other than \<^verbatim>\<open>partSize\<close> and \<^verbatim>\<open>queueSize\<close>, holds the value it held
  before the call, and no such field has been added. The option objects are plain objects
  that exist before the call.
\<close>

theorem upload_keeps_other_option_fields:
  assumes "uploadStreamToCOS stream b t c \<sigma> = Inr \<sigma>'"
    and "a < nxt \<sigma>" and "kind (heap \<sigma> a) = Plain" and "b = Ref a \<or> t = Ref a"
    and "b \<noteq> Ref a \<or> k \<noteq> ''Body''"
    and "t \<noteq> Ref a \<or> (k \<noteq> ''partSize'' \<and> k \<noteq> ''queueSize'')"
  shows "props (heap \<sigma>' a) k = props (heap \<sigma> a) k"
proof -
  from upload_Inr [OF assms(1)] show ?thesis
  proof
    assume "\<sigma>' = merge_and_upload stream b t \<sigma>"
    then show ?thesis
      using assms(2,5,6) by (simp add: merge_props)
  next
    assume "\<exists>s. stream = Ref s \<and> \<sigma>' = merge_and_upload (Ref (nxt \<sigma>)) b t (gzipped s \<sigma>)"
    then obtain s where \<sigma>': "\<sigma>' = merge_and_upload (Ref (nxt \<sigma>)) b t (gzipped s \<sigma>)"
      by blast
    have "a < nxt (gzipped s \<sigma>)"
      using assms(2) by (simp add: gzipped_simps)
    then have "props (heap \<sigma>' a) k = props (heap (gzipped s \<sigma>) a) k"
      unfolding \<sigma>' using assms(5,6) by (rule merge_props)
    also have "\<dots> = props (heap \<sigma> a) k"
      using assms(2) by (simp add: gzipped_simps)
    finally show ?thesis .
  qed
qed

theorem upload_keeps_other_option_fields_witness:
  "\<exists>\<sigma>'. uploadStreamToCOS (Ref 0) (Ref 1) (Ref 2) (BoolV True) readme_state = Inr \<sigma>'
     \<and> (1::nat) < nxt readme_state \<and> kind (heap readme_state 1) = Plain
     \<and> Ref 1 \<noteq> Ref (2::nat)
     \<and> ''Bucket'' \<noteq> ''Body''
     \<and> props (heap \<sigma>' 1) ''Bucket'' = Some (StrV ''test-backups'')"
proof -
  note f = readme_state_facts
  obtain \<sigma>' where up: "uploadStreamToCOS (Ref 0) (Ref 1) (Ref 2) (BoolV True) readme_state = Inr \<sigma>'"
    using upload_succeeds [OF disjI2 [OF f(1)]] by blast
  have lt: "(1::nat) < nxt readme_state" by (simp add: f(5))
  have ne: "Ref 1 \<noteq> Ref (2::nat)" and k: "''Bucket'' \<noteq> ''Body''" by simp_all
  have pl: "kind (heap readme_state 1) = Plain" by (simp add: readme_state_def)
  have "props (heap \<sigma>' 1) ''Bucket'' = props (heap readme_state 1) ''Bucket''"
    by (rule upload_keeps_other_option_fields [OF up lt pl disjI1 [OF refl] disjI2 [OF k] disjI1 [OF ne [symmetric]]])
  then have "props (heap \<sigma>' 1) ''Bucket'' = Some (StrV ''test-backups'')"
    by (simp add: readme_state_def)
  with up lt pl ne k show ?thesis by blast
qed

text \<open>
  The counterexample to claim C2 as stated: with the objects of the README, \<^verbatim>\<open>bucket_options\<close>
  has no field \<^verbatim>\<open>Body\<close> before the upload and holds the source stream in it afterwards.
\<close>

theorem bucket_options_gains_body:
  "get_prop readme_state (Ref 1) ''Body'' = Undefined
   \<and> uploadStreamToCOS (Ref 0) (Ref 1) (Ref 2) (BoolV False) readme_state =
       Inr (merge_and_upload (Ref 0) (Ref 1) (Ref 2) readme_state)
   \<and> get_prop (merge_and_upload (Ref 0) (Ref 1) (Ref 2) readme_state) (Ref 1) ''Body'' = Ref 0"
proof -
  have "get_prop (merge_and_upload (Ref 0) (Ref 1) (Ref 2) readme_state)
          (Ref (target_addr (Ref 1) readme_state)) ''Body'' = Ref 0"
    using merge_body [OF readme_state_facts(3), of "Ref 0" "Ref 2"] by simp
  then show ?thesis
    by (simp add: upload_raw_merge) (simp add: get_prop_def readme_state_def)
qed

section \<open>Compression\<close>

text \<open>
  Claim C4. For a readable stream and a bucket target that is another object (or none):
  with \<^verbatim>\<open>compress = true\<close> the upload creates a gzip transform, pipes the source stream into
  it and hands the transform to the storage client as \<^verbatim>\<open>Body\<close>; with \<^verbatim>\<open>compress = false\<close> it
  creates nothing and hands over the source stream itself.
\<close>

theorem gzip_interposed_iff_compress:
  assumes "is_stream \<sigma> (Ref s)" and "allocated \<sigma> (Ref s)" and "allocated \<sigma> b" and "b \<noteq> Ref s"
  shows "(\<exists>\<sigma>' p opts cb. uploadStreamToCOS (Ref s) b t (BoolV True) \<sigma> = Inr \<sigma>'
            \<and> trace \<sigma>' = trace \<sigma> @ [GzipCreated (nxt \<sigma>), Piped s (nxt \<sigma>), S3Upload p opts cb]
            \<and> get_prop \<sigma>' p ''Body'' = Ref (nxt \<sigma>)
            \<and> kind (heap \<sigma>' (nxt \<sigma>)) = Gzip)
       \<and> (\<exists>\<sigma>' p opts cb. uploadStreamToCOS (Ref s) b t (BoolV False) \<sigma> = Inr \<sigma>'
            \<and> trace \<sigma>' = trace \<sigma> @ [S3Upload p opts cb]
            \<and> get_prop \<sigma>' p ''Body'' = Ref s)"
proof
  let ?g = "gzipped s \<sigma>"
  have up: "uploadStreamToCOS (Ref s) b t (BoolV True) \<sigma> = Inr (merge_and_upload (Ref (nxt \<sigma>)) b t ?g)"
    using assms(1) by (simp add: upload_gzip_merge)
  have al: "allocated ?g b"
    using assms(3) by (rule allocated_mono) (simp add: gzipped_simps)
  have "target_addr b ?g \<noteq> nxt \<sigma>"
    using assms(3) by (rule target_not_fresh) (simp_all add: gzipped_simps)
  then have body: "get_prop (merge_and_upload (Ref (nxt \<sigma>)) b t ?g) (Ref (target_addr b ?g)) ''Body''
                = Ref (nxt \<sigma>)"
    using al by (intro merge_body) simp_all
  have "kind (heap (merge_and_upload (Ref (nxt \<sigma>)) b t ?g) (nxt \<sigma>)) = Gzip"
    by (simp add: merge_kind gzipped_simps)
  with up body
  show "\<exists>\<sigma>' p opts cb. uploadStreamToCOS (Ref s) b t (BoolV True) \<sigma> = Inr \<sigma>'
            \<and> trace \<sigma>' = trace \<sigma> @ [GzipCreated (nxt \<sigma>), Piped s (nxt \<sigma>), S3Upload p opts cb]
            \<and> get_prop \<sigma>' p ''Body'' = Ref (nxt \<sigma>)
            \<and> kind (heap \<sigma>' (nxt \<sigma>)) = Gzip"
    by (simp add: merge_trace gzipped_simps)
next
  have up: "uploadStreamToCOS (Ref s) b t (BoolV False) \<sigma> = Inr (merge_and_upload (Ref s) b t \<sigma>)"
    by (simp add: upload_raw_merge)
  have "Ref (target_addr b \<sigma>) \<noteq> Ref s"
    using assms(2) assms(4) [symmetric] by (rule target_not_value)
  then have "get_prop (merge_and_upload (Ref s) b t \<sigma>) (Ref (target_addr b \<sigma>)) ''Body'' = Ref s"
    using assms(3) by (intro merge_body) simp_all
  with up
  show "\<exists>\<sigma>' p opts cb. uploadStreamToCOS (Ref s) b t (BoolV False) \<sigma> = Inr \<sigma>'
            \<and> trace \<sigma>' = trace \<sigma> @ [S3Upload p opts cb]
            \<and> get_prop \<sigma>' p ''Body'' = Ref s"
    by (simp add: merge_trace)
qed

theorem gzip_interposed_iff_compress_witness:
  "is_stream readme_state (Ref 0) \<and> allocated readme_state (Ref 0) \<and> allocated readme_state (Ref 1)
   \<and> Ref 1 \<noteq> Ref (0::nat)
   \<and> (\<exists>\<sigma>' p opts cb. uploadStreamToCOS (Ref 0) (Ref 1) (Ref 2) (BoolV True) readme_state = Inr \<sigma>'
            \<and> trace \<sigma>' = [GzipCreated 3, Piped 0 3, S3Upload p opts cb]
            \<and> get_prop \<sigma>' p ''Body'' = Ref 3
            \<and> kind (heap \<sigma>' 3) = Gzip)
   \<and> (\<exists>\<sigma>' p opts cb. uploadStreamToCOS (Ref 0) (Ref 1) (Ref 2) (BoolV False) readme_state = Inr \<sigma>'
            \<and> trace \<sigma>' = [S3Upload p opts cb]
            \<and> get_prop \<sigma>' p ''Body'' = Ref 0)"
proof -
  note f = readme_state_facts
  have ne: "Ref 1 \<noteq> Ref (0::nat)" by simp
  from gzip_interposed_iff_compress [OF f(1) f(2) f(3) ne, of "Ref 2"]
  have "(\<exists>\<sigma>' p opts cb. uploadStreamToCOS (Ref 0) (Ref 1) (Ref 2) (BoolV True) readme_state = Inr \<sigma>'
            \<and> trace \<sigma>' = [GzipCreated 3, Piped 0 3, S3Upload p opts cb]
            \<and> get_prop \<sigma>' p ''Body'' = Ref 3
            \<and> kind (heap \<sigma>' 3) = Gzip)
   \<and> (\<exists>\<sigma>' p opts cb. uploadStreamToCOS (Ref 0) (Ref 1) (Ref 2) (BoolV False) readme_state = Inr \<sigma>'
            \<and> trace \<sigma>' = [S3Upload p opts cb]
            \<and> get_prop \<sigma>' p ''Body'' = Ref 0)"
    by (simp only: f(5) f(6) append_Nil)
  with f(1) f(2) f(3) ne show ?thesis by (intro conjI) (elim conjE, assumption)+
qed

text \<open>
  Claim C10. An omitted compression argument is the argument \<^verbatim>\<open>false\<close>, for both
  operations: the results are the same, no gzip transform is created (the trace gains only
  the spawn and the call of the storage client), and the \<^verbatim>\<open>Body\<close> is the raw stream: the
  child's standard output for \<^verbatim>\<open>execCommandAndSendToCOS\<close> with a command that \<^verbatim>\<open>spawn\<close> accepts,
  the caller's stream for \<^verbatim>\<open>uploadStreamToCOS\<close>.
\<close>

theorem omitted_compress_is_false:
  assumes "allocated \<sigma> b"
  shows "uploadStreamToCOS stream b t Undefined \<sigma> = uploadStreamToCOS stream b t (BoolV False) \<sigma>
       \<and> execCommandAndSendToCOS command args b t Undefined \<sigma> =
           execCommandAndSendToCOS command args b t (BoolV False) \<sigma>
       \<and> (valid_spawn_args command args \<longrightarrow>
            (\<exists>\<sigma>' p opts cb. execCommandAndSendToCOS command args b t Undefined \<sigma> = Inr \<sigma>'
               \<and> trace \<sigma>' = trace \<sigma> @ [Spawned command args (Suc (nxt \<sigma>)), S3Upload p opts cb]
               \<and> get_prop \<sigma>' p ''Body'' = Ref (nxt \<sigma>)
               \<and> kind (heap \<sigma>' (nxt \<sigma>)) = Readable))
       \<and> (allocated \<sigma> stream \<and> stream \<noteq> Undefined \<and> stream \<noteq> b \<longrightarrow>
            (\<exists>\<sigma>' p opts cb. uploadStreamToCOS stream b t Undefined \<sigma> = Inr \<sigma>'
               \<and> trace \<sigma>' = trace \<sigma> @ [S3Upload p opts cb]
               \<and> get_prop \<sigma>' p ''Body'' = stream))"
proof (intro conjI impI)
  show "uploadStreamToCOS stream b t Undefined \<sigma> = uploadStreamToCOS stream b t (BoolV False) \<sigma>"
    by (simp add: uploadStreamToCOS_def)
  show "execCommandAndSendToCOS command args b t Undefined \<sigma> =
           execCommandAndSendToCOS command args b t (BoolV False) \<sigma>"
    by (simp add: execCommandAndSendToCOS_def)
next
  assume v: "valid_spawn_args command args"
  have nt: "\<not> truthy (default_param Undefined (BoolV False))" by simp
  from exec_state_raw [OF assms nt, of command args t]
  show "\<exists>\<sigma>' p opts cb. execCommandAndSendToCOS command args b t Undefined \<sigma> = Inr \<sigma>'
             \<and> trace \<sigma>' = trace \<sigma> @ [Spawned command args (Suc (nxt \<sigma>)), S3Upload p opts cb]
             \<and> get_prop \<sigma>' p ''Body'' = Ref (nxt \<sigma>)
             \<and> kind (heap \<sigma>' (nxt \<sigma>)) = Readable"
    using exec_state_facts(2) [OF assms, of command args t Undefined]
    by (auto simp add: exec_result [OF v])
next
  assume st: "allocated \<sigma> stream \<and> stream \<noteq> Undefined \<and> stream \<noteq> b"
  have up: "uploadStreamToCOS stream b t Undefined \<sigma> = Inr (merge_and_upload stream b t \<sigma>)"
    by (simp add: upload_raw_merge)
  have "Ref (target_addr b \<sigma>) \<noteq> stream"
    using st by (intro target_not_value) simp_all
  then have "get_prop (merge_and_upload stream b t \<sigma>) (Ref (target_addr b \<sigma>)) ''Body'' = stream"
    using assms st by (intro merge_body) simp_all
  with up
  show "\<exists>\<sigma>' p opts cb. uploadStreamToCOS stream b t Undefined \<sigma> = Inr \<sigma>'
               \<and> trace \<sigma>' = trace \<sigma> @ [S3Upload p opts cb]
               \<and> get_prop \<sigma>' p ''Body'' = stream"
    by (simp add: merge_trace)
qed

theorem omitted_compress_is_false_witness:
  "allocated readme_state (Ref 1) \<and> valid_spawn_args ''pg_dump'' []
   \<and> allocated readme_state (Ref 0) \<and> Ref 0 \<noteq> Undefined \<and> Ref 0 \<noteq> Ref (1::nat)
   \<and> uploadStreamToCOS (Ref 0) (Ref 1) (Ref 2) Undefined readme_state =
       uploadStreamToCOS (Ref 0) (Ref 1) (Ref 2) (BoolV False) readme_state
   \<and> (\<exists>\<sigma>' p opts cb. execCommandAndSendToCOS ''pg_dump'' [] (Ref 1) (Ref 2) Undefined readme_state = Inr \<sigma>'
         \<and> trace \<sigma>' = [Spawned ''pg_dump'' [] 4, S3Upload p opts cb]
         \<and> get_prop \<sigma>' p ''Body'' = Ref 3)
   \<and> (\<exists>\<sigma>' p opts cb. uploadStreamToCOS (Ref 0) (Ref 1) (Ref 2) Undefined readme_state = Inr \<sigma>'
         \<and> trace \<sigma>' = [S3Upload p opts cb]
         \<and> get_prop \<sigma>' p ''Body'' = Ref 0)"
proof -
  note f = readme_state_facts
  have n: "Suc 3 = 4" by simp
  have ne: "Ref 0 \<noteq> Undefined" "Ref 0 \<noteq> Ref (1::nat)" by simp_all
  note th = omitted_compress_is_false [OF f(3), of "Ref 0" "Ref 2" "''pg_dump''" "[]",
      unfolded f(5) f(6) n append_Nil]
  from th have 1: "uploadStreamToCOS (Ref 0) (Ref 1) (Ref 2) Undefined readme_state =
       uploadStreamToCOS (Ref 0) (Ref 1) (Ref 2) (BoolV False) readme_state"
    by (elim conjE)
  from th readme_args(2)
  have 2: "\<exists>\<sigma>' p opts cb. execCommandAndSendToCOS ''pg_dump'' [] (Ref 1) (Ref 2) Undefined readme_state = Inr \<sigma>'
         \<and> trace \<sigma>' = [Spawned ''pg_dump'' [] 4, S3Upload p opts cb]
         \<and> get_prop \<sigma>' p ''Body'' = Ref 3"
    by (elim conjE) blast
  from th f(2) ne
  have 3: "\<exists>\<sigma>' p opts cb. uploadStreamToCOS (Ref 0) (Ref 1) (Ref 2) Undefined readme_state = Inr \<sigma>'
         \<and> trace \<sigma>' = [S3Upload p opts cb]
         \<and> get_prop \<sigma>' p ''Body'' = Ref 0"
    by (elim conjE) blast
  from f(3) readme_args(2) f(2) ne 1 2 3 show ?thesis by (intro conjI)
qed

section \<open>Composition\<close>

text \<open>
  Claim C5. For a command that \<^verbatim>\<open>spawn\<close> accepts, \<^verbatim>\<open>execCommandAndSendToCOS\<close> spawns the child
  first and then, in the same call, runs the upload on the reference held in the child's
  \<^verbatim>\<open>stdout\<close> property: no other stream is made for it, and the body given to the storage
  client is that very stream, or the gzip transform it is piped into. When the call
  returns, a consumer is attached to the child's standard output and reads from it, and
  no lifecycle event of the child has been delivered (no signal has been emitted): the
  upload has begun while the process runs. The child's exit, whenever it comes, is
  signalled after the call of the storage client.
\<close>

theorem exec_spawns_then_uploads_stdout:
  assumes "allocated \<sigma> b" and "valid_spawn_args command args" and "listeners_allocated \<sigma>"
  shows "\<exists>\<sigma>' p opts cb. execCommandAndSendToCOS command args b t c \<sigma> = Inr \<sigma>'
           \<and> execCommandAndSendToCOS command args b t c \<sigma> =
               uploadStreamToCOS (Ref (nxt \<sigma>)) b t (default_param c (BoolV False))
                 (spawned command args \<sigma>)
           \<and> get_prop \<sigma>' (Ref (Suc (nxt \<sigma>))) ''stdout'' = Ref (nxt \<sigma>)
           \<and> kind (heap \<sigma>' (nxt \<sigma>)) = Readable
           \<and> kind (heap \<sigma>' (Suc (nxt \<sigma>))) = ChildProcess
           \<and> attached (heap \<sigma>' (nxt \<sigma>))
           \<and> signals \<sigma>' = signals \<sigma>
           \<and> (if truthy (default_param c (BoolV False))
               then trace \<sigma>' = trace \<sigma> @
                      [Spawned command args (Suc (nxt \<sigma>)), GzipCreated (Suc (Suc (nxt \<sigma>))),
                       Piped (nxt \<sigma>) (Suc (Suc (nxt \<sigma>))), S3Upload p opts cb]
                    \<and> get_prop \<sigma>' p ''Body'' = Ref (Suc (Suc (nxt \<sigma>)))
               else trace \<sigma>' = trace \<sigma> @ [Spawned command args (Suc (nxt \<sigma>)), S3Upload p opts cb]
                    \<and> get_prop \<sigma>' p ''Body'' = Ref (nxt \<sigma>))
           \<and> (\<forall>code. trace (deliver (Suc (nxt \<sigma>)) (ChildExit code) \<sigma>') =
                        trace \<sigma>' @ [Emitted ''command_exit'' code])"
proof -
  let ?\<sigma>' = "exec_state command args b t c \<sigma>"
  note v = assms(2)
  have up: "uploadStreamToCOS (Ref (nxt \<sigma>)) b t (default_param c (BoolV False))
              (spawned command args \<sigma>) = Inr ?\<sigma>'"
    using exec_eq [OF v, of b t c \<sigma>] by (simp add: exec_result [OF v])
  note facts = exec_state_facts [OF assms(1), of command args t c]
  note d = deliver_registered [OF facts(4) listeners_below_child [OF assms(3)]]
  have ex: "\<forall>code. trace (deliver (Suc (nxt \<sigma>)) (ChildExit code) ?\<sigma>') =
                  trace ?\<sigma>' @ [Emitted ''command_exit'' code]"
    by (simp add: d)
  show ?thesis
  proof (cases "truthy (default_param c (BoolV False))")
    case True
    from exec_state_gzip [OF assms(1) True, of command args t] obtain p opts cb where
      tr: "trace ?\<sigma>' =
              trace \<sigma> @ [Spawned command args (Suc (nxt \<sigma>)), GzipCreated (Suc (Suc (nxt \<sigma>))),
                         Piped (nxt \<sigma>) (Suc (Suc (nxt \<sigma>))), S3Upload p opts cb]"
      and body: "get_prop ?\<sigma>' p ''Body'' = Ref (Suc (Suc (nxt \<sigma>)))"
      by blast
    have "signals ?\<sigma>' = signals \<sigma>"
      using signals_append [OF tr] by (simp add: map_filter_def)
    then show ?thesis
      using tr body True facts exec_state_attached [OF assms(1), of command args t c] up ex
      by (intro exI [of _ ?\<sigma>'] exI [of _ p] exI [of _ opts] exI [of _ cb])
         (simp add: exec_result [OF v])
  next
    case False
    from exec_state_raw [OF assms(1) False, of command args t] obtain p opts cb where
      tr: "trace ?\<sigma>' = trace \<sigma> @ [Spawned command args (Suc (nxt \<sigma>)), S3Upload p opts cb]"
      and body: "get_prop ?\<sigma>' p ''Body'' = Ref (nxt \<sigma>)"
      by blast
    have "signals ?\<sigma>' = signals \<sigma>"
      using signals_append [OF tr] by (simp add: map_filter_def)
    then show ?thesis
      using tr body False facts exec_state_attached [OF assms(1), of command args t c] up ex
      by (intro exI [of _ ?\<sigma>'] exI [of _ p] exI [of _ opts] exI [of _ cb])
         (simp add: exec_result [OF v])
  qed
qed

theorem exec_spawns_then_uploads_stdout_witness:
  "allocated readme_state (Ref 1) \<and> valid_spawn_args ''pg_dump'' [''-F'', ''custom'']
   \<and> listeners_allocated readme_state \<and>
   (\<exists>\<sigma>' p opts cb.
      execCommandAndSendToCOS ''pg_dump'' [''-F'', ''custom''] (Ref 1) (Ref 2) (BoolV True) readme_state = Inr \<sigma>'
      \<and> get_prop \<sigma>' (Ref 4) ''stdout'' = Ref 3
      \<and> kind (heap \<sigma>' 3) = Readable
      \<and> attached (heap \<sigma>' 3)
      \<and> signals \<sigma>' = []
      \<and> trace \<sigma>' = [Spawned ''pg_dump'' [''-F'', ''custom''] 4, GzipCreated 5, Piped 3 5, S3Upload p opts cb]
      \<and> get_prop \<sigma>' p ''Body'' = Ref 5)"
proof -
  note f = readme_state_facts
  have sg: "signals readme_state = []"
    by (simp add: signals_def f(6) map_filter_def)
  have n: "Suc 3 = 4" "Suc (Suc 3) = 5" by simp_all
  from exec_spawns_then_uploads_stdout [OF f(3) readme_args(1) f(7), of "Ref 2" "BoolV True"]
  obtain \<sigma>' p opts cb where
    "execCommandAndSendToCOS ''pg_dump'' [''-F'', ''custom''] (Ref 1) (Ref 2) (BoolV True) readme_state = Inr \<sigma>'"
    "get_prop \<sigma>' (Ref 4) ''stdout'' = Ref 3" "kind (heap \<sigma>' 3) = Readable" "attached (heap \<sigma>' 3)"
    "signals \<sigma>' = []"
    "trace \<sigma>' = [Spawned ''pg_dump'' [''-F'', ''custom''] 4, GzipCreated 5, Piped 3 5, S3Upload p opts cb]"
    "get_prop \<sigma>' p ''Body'' = Ref 5"
    unfolding f(5) f(6) sg n by auto
  with f(3) readme_args(1) f(7) show ?thesis by blast
qed

section \<open>The completion callback\<close>

text \<open>
  Claim C3. An upload that does not throw hands the storage client one callback and emits
  no signal itself. Whenever the storage client runs that callback, exactly one signal is
  emitted, \<^verbatim>\<open>upload_error\<close> or \<^verbatim>\<open>upload_finish\<close>; it is \<^verbatim>\<open>upload_error\<close> exactly when the error
  argument is non-null in the sense of the code's test \<^verbatim>\<open>err != null\<close> (neither \<^verbatim>\<open>null\<close> nor
  \<^verbatim>\<open>undefined\<close>).
\<close>

theorem exactly_one_upload_signal:
  assumes "\<not> truthy (default_param c (BoolV False)) \<or> is_stream \<sigma> stream"
  shows "\<exists>\<sigma>' cb. uploadStreamToCOS stream b t c \<sigma> = Inr \<sigma>'
           \<and> callbacks \<sigma>' = callbacks \<sigma> @ [cb]
           \<and> signals \<sigma>' = signals \<sigma>
           \<and> (\<forall>err data \<sigma>2. \<exists>name payload.
                 signals (run_callback cb err data \<sigma>2) = signals \<sigma>2 @ [(name, payload)]
                 \<and> (name = ''upload_error'' \<or> name = ''upload_finish'')
                 \<and> (name = ''upload_error'') = (err \<noteq> Null \<and> err \<noteq> Undefined)
                 \<and> fired ''upload_error'' (run_callback cb err data \<sigma>2)
                      + fired ''upload_finish'' (run_callback cb err data \<sigma>2)
                    = Suc (fired ''upload_error'' \<sigma>2 + fired ''upload_finish'' \<sigma>2))"
proof -
  from upload_succeeds [OF assms] obtain \<sigma>' where
    up: "uploadStreamToCOS stream b t c \<sigma> = Inr \<sigma>'" by blast
  have one: "\<exists>name payload.
                 signals (run_callback OnUploadDone err data \<sigma>2) = signals \<sigma>2 @ [(name, payload)]
                 \<and> (name = ''upload_error'' \<or> name = ''upload_finish'')
                 \<and> (name = ''upload_error'') = (err \<noteq> Null \<and> err \<noteq> Undefined)
                 \<and> fired ''upload_error'' (run_callback OnUploadDone err data \<sigma>2)
                      + fired ''upload_finish'' (run_callback OnUploadDone err data \<sigma>2)
                    = Suc (fired ''upload_error'' \<sigma>2 + fired ''upload_finish'' \<sigma>2)"
    for err data \<sigma>2
    by (simp add: upload_callback_def emit_def signals_def fired_def map_filter_def)
  show ?thesis
    using up upload_callbacks [OF up] one
    by (intro exI [of _ \<sigma>'] exI [of _ OnUploadDone]) simp
qed

theorem exactly_one_upload_signal_witness:
  "is_stream readme_state (Ref 0) \<and>
   (\<exists>\<sigma>' cb. uploadStreamToCOS (Ref 0) (Ref 1) (Ref 2) (BoolV True) readme_state = Inr \<sigma>'
      \<and> callbacks \<sigma>' = [cb]
      \<and> (\<exists>payload. signals (run_callback cb Null (Ref 7) \<sigma>') = signals \<sigma>' @ [(''upload_finish'', payload)])
      \<and> (\<exists>payload. signals (run_callback cb (Ref 8) Undefined \<sigma>') = signals \<sigma>' @ [(''upload_error'', payload)]))"
proof -
  note f = readme_state_facts
  have c0: "callbacks readme_state = []" by (simp add: callbacks_def f(6) map_filter_def)
  from exactly_one_upload_signal [where c = "BoolV True" and b = "Ref 1" and t = "Ref 2",
      OF disjI2 [OF f(1)]]
  obtain \<sigma>' where "\<exists>cb. uploadStreamToCOS (Ref 0) (Ref 1) (Ref 2) (BoolV True) readme_state = Inr \<sigma>'
           \<and> callbacks \<sigma>' = callbacks readme_state @ [cb]
           \<and> signals \<sigma>' = signals readme_state
           \<and> (\<forall>err data \<sigma>2. \<exists>name payload.
                 signals (run_callback cb err data \<sigma>2) = signals \<sigma>2 @ [(name, payload)]
                 \<and> (name = ''upload_error'' \<or> name = ''upload_finish'')
                 \<and> (name = ''upload_error'') = (err \<noteq> Null \<and> err \<noteq> Undefined)
                 \<and> fired ''upload_error'' (run_callback cb err data \<sigma>2)
                      + fired ''upload_finish'' (run_callback cb err data \<sigma>2)
                    = Suc (fired ''upload_error'' \<sigma>2 + fired ''upload_finish'' \<sigma>2))" ..
  then obtain cb where all: "uploadStreamToCOS (Ref 0) (Ref 1) (Ref 2) (BoolV True) readme_state = Inr \<sigma>'
           \<and> callbacks \<sigma>' = callbacks readme_state @ [cb]
           \<and> signals \<sigma>' = signals readme_state
           \<and> (\<forall>err data \<sigma>2. \<exists>name payload.
                 signals (run_callback cb err data \<sigma>2) = signals \<sigma>2 @ [(name, payload)]
                 \<and> (name = ''upload_error'' \<or> name = ''upload_finish'')
                 \<and> (name = ''upload_error'') = (err \<noteq> Null \<and> err \<noteq> Undefined)
                 \<and> fired ''upload_error'' (run_callback cb err data \<sigma>2)
                      + fired ''upload_finish'' (run_callback cb err data \<sigma>2)
                    = Suc (fired ''upload_error'' \<sigma>2 + fired ''upload_finish'' \<sigma>2))" ..
  note up = all [THEN conjunct1]
  have cbs: "callbacks \<sigma>' = [cb]"
    using all [THEN conjunct2, THEN conjunct1] by (simp only: c0 append_Nil)
  note one = all [THEN conjunct2, THEN conjunct2, THEN conjunct2, rule_format]
  from one [of Null "Ref 7" \<sigma>'] obtain name payload where
    "signals (run_callback cb Null (Ref 7) \<sigma>') = signals \<sigma>' @ [(name, payload)]"
    "name = ''upload_error'' \<or> name = ''upload_finish''"
    "(name = ''upload_error'') = (Null \<noteq> Null \<and> Null \<noteq> Undefined)"
    by (elim exE conjE)
  then have fin: "\<exists>payload. signals (run_callback cb Null (Ref 7) \<sigma>') =
      signals \<sigma>' @ [(''upload_finish'', payload)]"
    by auto
  from one [of "Ref 8" Undefined \<sigma>'] obtain name payload where
    "signals (run_callback cb (Ref 8) Undefined \<sigma>') = signals \<sigma>' @ [(name, payload)]"
    "(name = ''upload_error'') = (Ref 8 \<noteq> Null \<and> Ref 8 \<noteq> Undefined)"
    by (elim exE conjE)
  then have err: "\<exists>payload. signals (run_callback cb (Ref 8) Undefined \<sigma>') =
      signals \<sigma>' @ [(''upload_error'', payload)]"
    by auto
  from up cbs fin err have "\<exists>\<sigma>' cb. uploadStreamToCOS (Ref 0) (Ref 1) (Ref 2) (BoolV True) readme_state = Inr \<sigma>'
      \<and> callbacks \<sigma>' = [cb]
      \<and> (\<exists>payload. signals (run_callback cb Null (Ref 7) \<sigma>') = signals \<sigma>' @ [(''upload_finish'', payload)])
      \<and> (\<exists>payload. signals (run_callback cb (Ref 8) Undefined \<sigma>') = signals \<sigma>' @ [(''upload_error'', payload)])"
    by (intro exI [of _ \<sigma>'] exI [of _ cb] conjI)
  with f(1) show ?thesis by (rule conjI)
qed

text \<open>
  Claim C8. The callback an upload hands to the storage client emits its own argument:
  when the storage client reports a failure, \<^verbatim>\<open>upload_error\<close> with the error as it came from
  the client; when it reports success, \<^verbatim>\<open>upload_finish\<close> with the client's result data. The
  callback writes to no object, so what the payload refers to is as the client left it.
\<close>

theorem upload_signal_payload:
  assumes "\<not> truthy (default_param c (BoolV False)) \<or> is_stream \<sigma> stream"
  shows "\<exists>\<sigma>' cb. uploadStreamToCOS stream b t c \<sigma> = Inr \<sigma>'
           \<and> callbacks \<sigma>' = callbacks \<sigma> @ [cb]
           \<and> (\<forall>err data \<sigma>2.
                 trace (run_callback cb err data \<sigma>2) =
                   trace \<sigma>2 @ [if err \<noteq> Null \<and> err \<noteq> Undefined
                               then Emitted ''upload_error'' err
                               else Emitted ''upload_finish'' data]
                 \<and> heap (run_callback cb err data \<sigma>2) = heap \<sigma>2)"
proof -
  from upload_succeeds [OF assms] obtain \<sigma>' where
    up: "uploadStreamToCOS stream b t c \<sigma> = Inr \<sigma>'" by blast
  have payload: "trace (run_callback OnUploadDone err data \<sigma>2) =
                   trace \<sigma>2 @ [if err \<noteq> Null \<and> err \<noteq> Undefined
                               then Emitted ''upload_error'' err
                               else Emitted ''upload_finish'' data]
                 \<and> heap (run_callback OnUploadDone err data \<sigma>2) = heap \<sigma>2"
    for err data \<sigma>2
    by (simp add: upload_callback_def emit_def)
  show ?thesis
    using up upload_callbacks(1) [OF up] payload
    by (intro exI [of _ \<sigma>'] exI [of _ OnUploadDone]) simp
qed

theorem upload_signal_payload_witness:
  "is_stream readme_state (Ref 0) \<and>
   (\<exists>\<sigma>' cb. uploadStreamToCOS (Ref 0) (Ref 1) (Ref 2) (BoolV True) readme_state = Inr \<sigma>'
      \<and> callbacks \<sigma>' = [cb]
      \<and> trace (run_callback cb (Ref 8) Undefined \<sigma>') = trace \<sigma>' @ [Emitted ''upload_error'' (Ref 8)]
      \<and> trace (run_callback cb Null (Ref 7) \<sigma>') = trace \<sigma>' @ [Emitted ''upload_finish'' (Ref 7)]
      \<and> heap (run_callback cb Null (Ref 7) \<sigma>') = heap \<sigma>')"
proof -
  note f = readme_state_facts
  have c0: "callbacks readme_state = []" by (simp add: callbacks_def f(6) map_filter_def)
  from upload_signal_payload [where c = "BoolV True" and b = "Ref 1" and t = "Ref 2",
      OF disjI2 [OF f(1)]]
  obtain \<sigma>' where "\<exists>cb. uploadStreamToCOS (Ref 0) (Ref 1) (Ref 2) (BoolV True) readme_state = Inr \<sigma>'
           \<and> callbacks \<sigma>' = callbacks readme_state @ [cb]
           \<and> (\<forall>err data \<sigma>2.
                 trace (run_callback cb err data \<sigma>2) =
                   trace \<sigma>2 @ [if err \<noteq> Null \<and> err \<noteq> Undefined
                               then Emitted ''upload_error'' err
                               else Emitted ''upload_finish'' data]
                 \<and> heap (run_callback cb err data \<sigma>2) = heap \<sigma>2)" ..
  then obtain cb where all: "uploadStreamToCOS (Ref 0) (Ref 1) (Ref 2) (BoolV True) readme_state = Inr \<sigma>'
           \<and> callbacks \<sigma>' = callbacks readme_state @ [cb]
           \<and> (\<forall>err data \<sigma>2.
                 trace (run_callback cb err data \<sigma>2) =
                   trace \<sigma>2 @ [if err \<noteq> Null \<and> err \<noteq> Undefined
                               then Emitted ''upload_error'' err
                               else Emitted ''upload_finish'' data]
                 \<and> heap (run_callback cb err data \<sigma>2) = heap \<sigma>2)" ..
  note up = all [THEN conjunct1]
  have cbs: "callbacks \<sigma>' = [cb]"
    using all [THEN conjunct2, THEN conjunct1] by (simp only: c0 append_Nil)
  note pay = all [THEN conjunct2, THEN conjunct2, rule_format]
  from pay [of "Ref 8" Undefined \<sigma>'] pay [of Null "Ref 7" \<sigma>']
  have 1: "trace (run_callback cb (Ref 8) Undefined \<sigma>') = trace \<sigma>' @ [Emitted ''upload_error'' (Ref 8)]"
    and 2: "trace (run_callback cb Null (Ref 7) \<sigma>') = trace \<sigma>' @ [Emitted ''upload_finish'' (Ref 7)]"
    and 3: "heap (run_callback cb Null (Ref 7) \<sigma>') = heap \<sigma>'"
    by simp_all
  from up cbs 1 2 3 have "\<exists>\<sigma>' cb. uploadStreamToCOS (Ref 0) (Ref 1) (Ref 2) (BoolV True) readme_state = Inr \<sigma>'
      \<and> callbacks \<sigma>' = [cb]
      \<and> trace (run_callback cb (Ref 8) Undefined \<sigma>') = trace \<sigma>' @ [Emitted ''upload_error'' (Ref 8)]
      \<and> trace (run_callback cb Null (Ref 7) \<sigma>') = trace \<sigma>' @ [Emitted ''upload_finish'' (Ref 7)]
      \<and> heap (run_callback cb Null (Ref 7) \<sigma>') = heap \<sigma>'"
    by (intro exI [of _ \<sigma>'] exI [of _ cb] conjI)
  with f(1) show ?thesis by (rule conjI)
qed

section \<open>Lifecycle signals\<close>

text \<open>
  Claim C7. After \<^verbatim>\<open>execCommandAndSendToCOS\<close> with a command that \<^verbatim>\<open>spawn\<close> accepts, an \<^verbatim>\<open>'exit'\<close>
  event of the child emits \<^verbatim>\<open>command_exit\<close> with the event's status code, and an \<^verbatim>\<open>'error'\<close>
  event emits \<^verbatim>\<open>command_init_error\<close> with the event's error object; nothing else is emitted
  and no object is written to.
\<close>

theorem lifecycle_signals_carry_payload:
  assumes "listeners_allocated \<sigma>" and "valid_spawn_args command args"
  shows "\<exists>\<sigma>'. execCommandAndSendToCOS command args b t c \<sigma> = Inr \<sigma>'
           \<and> trace (deliver (Suc (nxt \<sigma>)) (ChildExit code) \<sigma>') =
               trace \<sigma>' @ [Emitted ''command_exit'' code]
           \<and> heap (deliver (Suc (nxt \<sigma>)) (ChildExit code) \<sigma>') = heap \<sigma>'
           \<and> trace (deliver (Suc (nxt \<sigma>)) (ChildError err) \<sigma>') =
               trace \<sigma>' @ [Emitted ''command_init_error'' err]
           \<and> heap (deliver (Suc (nxt \<sigma>)) (ChildError err) \<sigma>') = heap \<sigma>'"
proof -
  let ?\<sigma>' = "exec_state command args b t c \<sigma>"
  have ls: "listeners ?\<sigma>' =
      listeners \<sigma> @ [(Suc (nxt \<sigma>), ''exit'', OnExit), (Suc (nxt \<sigma>), ''error'', OnError)]"
    by (simp add: exec_state_def merge_listeners gzipped_simps spawned_simps)
  note d = deliver_registered [OF ls listeners_below_child [OF assms(1)]]
  show ?thesis
    by (intro exI [of _ ?\<sigma>']) (simp add: exec_result [OF assms(2)] d)
qed

theorem lifecycle_signals_carry_payload_witness:
  "listeners_allocated readme_state \<and> valid_spawn_args ''pg_dump'' [] \<and>
   (\<exists>\<sigma>'. execCommandAndSendToCOS ''pg_dump'' [] (Ref 1) (Ref 2) (BoolV True) readme_state = Inr \<sigma>'
      \<and> trace (deliver 4 (ChildExit (NumV 0)) \<sigma>') = trace \<sigma>' @ [Emitted ''command_exit'' (NumV 0)]
      \<and> trace (deliver 4 (ChildError (StrV ''ENOENT'')) \<sigma>') =
          trace \<sigma>' @ [Emitted ''command_init_error'' (StrV ''ENOENT'')])"
proof -
  note f = readme_state_facts
  have n: "Suc 3 = 4" by simp
  from lifecycle_signals_carry_payload [OF f(7) readme_args(2),
      where b = "Ref 1" and t = "Ref 2" and c = "BoolV True" and code = "NumV 0"
        and err = "StrV ''ENOENT''", unfolded f(5) n]
  have "\<exists>\<sigma>'. execCommandAndSendToCOS ''pg_dump'' [] (Ref 1) (Ref 2) (BoolV True) readme_state = Inr \<sigma>'
      \<and> trace (deliver 4 (ChildExit (NumV 0)) \<sigma>') = trace \<sigma>' @ [Emitted ''command_exit'' (NumV 0)]
      \<and> trace (deliver 4 (ChildError (StrV ''ENOENT'')) \<sigma>') =
          trace \<sigma>' @ [Emitted ''command_init_error'' (StrV ''ENOENT'')]"
    by (elim exE conjE) (intro exI conjI, assumption+)
  with f(7) readme_args(2) show ?thesis by (intro conjI)
qed



end
